theory Spec2Isabelle
  imports Complex_Main "HOL-Library.Multiset"
begin

section \<open>Values\<close>

text \<open>
  Money is a SQL \<^verbatim>\<open>DECIMAL\<close> on the database side and a JavaScript number on the service
  side. A finite JavaScript number is identified with the decimal that its \<^verbatim>\<open>toString\<close>
  prints, which is what the database driver sends; both are exact rationals in major
  units (rupees).
\<close>

datatype js_float = NaN | Finite rat | PlusInfinity | MinusInfinity

text \<open>
  \<^verbatim>\<open>req.body.amount\<close> reaches the service as it arrived, a number, a string or any other
  JSON value. The service looks at it in three ways only: \<^verbatim>\<open>!amount\<close>, \<^verbatim>\<open>parseFloat(amount)\<close>
  and \<^verbatim>\<open>amount.toString()\<close>. A value for which \<^verbatim>\<open>!amount\<close> holds (0, the empty string,
  \<^verbatim>\<open>null\<close>, \<^verbatim>\<open>false\<close>, a missing field) is \<open>Falsy\<close>; any other value is \<open>Truthy txt x\<close>,
  where \<open>txt\<close> is \<^verbatim>\<open>amount.toString()\<close> and \<open>x\<close> is \<^verbatim>\<open>parseFloat(amount)\<close>. The number 15000.005
  is \<open>Truthy ''15000.005'' (Finite (15000005 / 1000))\<close>, the number 1e-7 is
  \<open>Truthy ''1e-7'' (Finite (1 / 10 ^ 7))\<close>, and the string '1005e-3' is
  \<open>Truthy ''1005e-3'' (Finite (1005 / 1000))\<close>.
\<close>

datatype js_value = Falsy | Truthy string js_float

text \<open>\<^verbatim>\<open>isNaN(x) || x <= 0\<close> and \<^verbatim>\<open>x > c\<close>.\<close>

fun not_positive :: "js_float \<Rightarrow> bool" where
  "not_positive NaN = True"
| "not_positive (Finite v) = (v \<le> 0)"
| "not_positive PlusInfinity = False"
| "not_positive MinusInfinity = True"

fun exceeds :: "js_float \<Rightarrow> rat \<Rightarrow> bool" where
  "exceeds (Finite v) c = (c < v)"
| "exceeds PlusInfinity c = True"
| "exceeds _ c = False"

text \<open>
  \<^verbatim>\<open>txt.split(c)\<close> for a one-character separator: the pieces of \<open>txt\<close> between the
  occurrences of \<open>c\<close>, so a text without \<open>c\<close> gives one piece.
\<close>

fun split :: "char \<Rightarrow> string \<Rightarrow> string list" where
  "split c [] = ['''']"
| "split c (x # xs) =
     (if x = c then '''' # split c xs
      else (x # hd (split c xs)) # tl (split c xs))"

text \<open>
  The length of \<^verbatim>\<open>amount.toString().split('.')[1]\<close>, the text between the first point and
  the second; 0 when there is no point. The source tests
  \<^verbatim>\<open>decimalPlaces && decimalPlaces.length > 2\<close>, which holds exactly when this length
  exceeds 2.
\<close>

definition decimal_places :: "string \<Rightarrow> nat" where
  "decimal_places txt = (case split CHR ''.'' txt of _ # p # _ \<Rightarrow> length p | _ \<Rightarrow> 0)"

text \<open>A pagination parameter after the controller's \<^verbatim>\<open>parseInt\<close>.\<close>

datatype js_int = JsUndefined | JsNaN | JsInt int

section \<open>Errors\<close>

text \<open>
  One constructor for each message thrown by the service (\<^verbatim>\<open>bankService.js\<close>), raised by
  the stored procedures of the schema, or reported by the database for a violated
  constraint.
\<close>

datatype error =
    CustomerIdRequired            \<comment> \<open>'Customer ID is required'\<close>
  | UserNotFound                  \<comment> \<open>'User not found'\<close>
  | RecipientAndAmountRequired    \<comment> \<open>'Recipient customer ID and amount are required'\<close>
  | RecipientIdMustBeNumber       \<comment> \<open>'Recipient customer ID must be a number'\<close>
  | AmountMustBePositiveNumber    \<comment> \<open>'Amount must be a positive number'\<close>
  | MaximumTransferAmount         \<comment> \<open>'Maximum transfer amount is 10,000'\<close>
  | MaximumTwoDecimalPlaces       \<comment> \<open>'Amount can have maximum 2 decimal places'\<close>
  | CannotTransferToYourself      \<comment> \<open>'Cannot transfer to yourself'\<close>
  | SenderAccountNotFound         \<comment> \<open>'Sender account not found'\<close>
  | RecipientNotFound             \<comment> \<open>'Recipient not found'\<close>
  | InsufficientBalance           \<comment> \<open>'Insufficient balance' (service and \<^verbatim>\<open>withdraw_money\<close>)\<close>
  | InvalidTransfer               \<comment> \<open>'Invalid transfer' (model and \<^verbatim>\<open>execute_transfer\<close>)\<close>
  | AmountRequired                \<comment> \<open>'Amount is required'\<close>
  | MaximumDepositAmount          \<comment> \<open>'Maximum deposit amount is 50,000'\<close>
  | MaximumWithdrawalAmount       \<comment> \<open>'Maximum withdrawal amount is 25,000'\<close>
  | LimitOutOfRange               \<comment> \<open>'Limit must be between 1 and 100'\<close>
  | OffsetNegative                \<comment> \<open>'Offset must be a non-negative number'\<close>
  | InvalidTransactionType        \<comment> \<open>'Invalid transaction type'\<close>
  | InvalidTransactionStatus      \<comment> \<open>'Invalid transaction status'\<close>
  | IdsRequired                   \<comment> \<open>'Customer ID and transaction ID are required'\<close>
  | TransactionNotFound           \<comment> \<open>'Transaction not found'\<close>
  | AccessDenied                  \<comment> \<open>'Access denied: Transaction does not belong to this user'\<close>
  | AmountMustBePositive          \<comment> \<open>'Amount must be positive' (stored procedures)\<close>
  | CustomerNotFound              \<comment> \<open>'Customer not found' (stored procedures)\<close>
  | NumericOverflow               \<comment> \<open>SQLSTATE 22003\<close>
  | CheckViolation string         \<comment> \<open>SQLSTATE 23514, with the constraint's name\<close>
  | UniqueViolation               \<comment> \<open>SQLSTATE 23505\<close>
  | ForeignKeyViolation           \<comment> \<open>SQLSTATE 23503\<close>
  | TypeError                     \<comment> \<open>a property of \<^verbatim>\<open>undefined\<close> was read\<close>


section \<open>Schema\<close>

text \<open>
  \<^verbatim>\<open>BankUser\<close> is keyed by its primary key \<^verbatim>\<open>customer_id\<close>; \<^verbatim>\<open>Transactions\<close> is the list of
  rows in insertion order. \<^verbatim>\<open>transaction_id_seq\<close> is the last value the \<^verbatim>\<open>SERIAL\<close>
  sequence of \<^verbatim>\<open>Transactions.transaction_id\<close> has handed out. Columns that no modelled
  operation reads (email, password, created_at, updated_at) are left out.
\<close>

record bank_user =
  name :: string
  balance :: rat

record transaction_row =
  transaction_id :: int
  from_customer_id :: "int option"
  to_customer_id :: "int option"
  amount :: rat
  transaction_type :: string
  transaction_date :: nat
  status :: string
  description :: "string option"

record db =
  BankUser :: "int \<rightharpoonup> bank_user"
  Transactions :: "transaction_row list"
  transaction_id_seq :: int

subsection \<open>Column type \<^verbatim>\<open>DECIMAL(15, 2)\<close>\<close>

text \<open>
  A value stored into a \<^verbatim>\<open>DECIMAL(15, 2)\<close> column is rounded to two fractional digits,
  ties away from zero, and rejected when the rounded value needs more than thirteen
  integer digits.
\<close>

definition round2 :: "rat \<Rightarrow> rat" where
  "round2 x =
     (if 0 \<le> x then of_int \<lfloor>x * 100 + 1 / 2\<rfloor> / 100
      else - (of_int \<lfloor>- x * 100 + 1 / 2\<rfloor> / 100))"

definition decimal_15_2 :: "rat \<Rightarrow> error + rat" where
  "decimal_15_2 x =
     (let r = round2 x in if 10 ^ 13 \<le> \<bar>r\<bar> then Inl NumericOverflow else Inr r)"

subsection \<open>Statements\<close>

text \<open>
  \<^verbatim>\<open>UPDATE BankUser SET balance = f(balance) WHERE customer_id = cid\<close>, with the column
  type and the constraint \<^verbatim>\<open>chk_balance_non_negative\<close>. No row matching is not an error.
\<close>

definition update_balance ::
  "(int \<rightharpoonup> bank_user) \<Rightarrow> int \<Rightarrow> (rat \<Rightarrow> rat) \<Rightarrow> error + (int \<rightharpoonup> bank_user)" where
  "update_balance users cid f =
     (case users cid of
        None \<Rightarrow> Inr users
      | Some u \<Rightarrow>
          (case decimal_15_2 (f (balance u)) of
             Inl e \<Rightarrow> Inl e
           | Inr b \<Rightarrow>
               if b < 0 then Inl (CheckViolation ''chk_balance_non_negative'')
               else Inr (users(cid \<mapsto> u\<lparr>balance := b\<rparr>))))"

text \<open>
  \<^verbatim>\<open>INSERT INTO Transactions (...) VALUES (...) RETURNING transaction_id\<close>. The sequence
  advances first; then come the column type of \<^verbatim>\<open>amount\<close>, \<^verbatim>\<open>chk_amount_positive\<close>, the
  primary key and the two foreign keys. Every insert of the schema supplies an integer
  \<^verbatim>\<open>from_customer_id\<close>, the literal status \<^verbatim>\<open>'completed'\<close> and a literal type accepted by
  \<^verbatim>\<open>chk_transaction_type\<close>, so those constraints have no failing branch. The returned state
  is the working state of the open transaction.
\<close>

definition insert_transaction ::
  "db \<Rightarrow> nat \<Rightarrow> int \<Rightarrow> int option \<Rightarrow> rat \<Rightarrow> string \<Rightarrow> string option \<Rightarrow> (error + int) \<times> db" where
  "insert_transaction d now p_from p_to p_amount ttype p_description =
     (let new_id = transaction_id_seq d + 1;
          d1 = d\<lparr>transaction_id_seq := new_id\<rparr>
      in case decimal_15_2 p_amount of
           Inl e \<Rightarrow> (Inl e, d1)
         | Inr a \<Rightarrow>
             if \<not> 0 < a then (Inl (CheckViolation ''chk_amount_positive''), d1)
             else if new_id \<in> transaction_id ` set (Transactions d) then (Inl UniqueViolation, d1)
             else if BankUser d p_from = None
                     \<or> (case p_to of None \<Rightarrow> False | Some t \<Rightarrow> BankUser d t = None)
               then (Inl ForeignKeyViolation, d1)
             else (Inr new_id,
                   d1\<lparr>Transactions := Transactions d @
                      [\<lparr>transaction_id = new_id, from_customer_id = Some p_from,
                        to_customer_id = p_to, amount = a, transaction_type = ttype,
                        transaction_date = now, status = ''completed'',
                        description = p_description\<rparr>]\<rparr>))"

subsection \<open>Stored procedures\<close>

definition validate_transfer :: "db \<Rightarrow> int \<Rightarrow> int option \<Rightarrow> rat \<Rightarrow> bool" where
  "validate_transfer d p_from_customer_id p_to_customer_id p_amount =
     (case BankUser d p_from_customer_id of
        None \<Rightarrow> False
      | Some sender \<Rightarrow>
          if (case p_to_customer_id of None \<Rightarrow> False | Some t \<Rightarrow> BankUser d t = None) then False
          else if balance sender < p_amount then False
          else if p_to_customer_id = Some p_from_customer_id then False
          else True)"

text \<open>
  The row locks \<^verbatim>\<open>execute_transfer\<close> takes with \<^verbatim>\<open>SELECT ... FOR UPDATE\<close>, in the order in
  which it takes them (a row that does not exist is not locked).
\<close>

definition execute_transfer_locks :: "db \<Rightarrow> int \<Rightarrow> int option \<Rightarrow> int list" where
  "execute_transfer_locks d p_from_customer_id p_to_customer_id =
     (if BankUser d p_from_customer_id = None then [] else [p_from_customer_id]) @
     (case p_to_customer_id of
        None \<Rightarrow> []
      | Some t \<Rightarrow> if BankUser d t = None then [] else [t])"

definition execute_transfer ::
  "db \<Rightarrow> nat \<Rightarrow> int \<Rightarrow> int option \<Rightarrow> rat \<Rightarrow> string option \<Rightarrow> (error + int) \<times> db" where
  "execute_transfer d now p_from_customer_id p_to_customer_id p_amount p_description =
     (if \<not> validate_transfer d p_from_customer_id p_to_customer_id p_amount
      then (Inl InvalidTransfer, d)
      else case update_balance (BankUser d) p_from_customer_id (\<lambda>b. b - p_amount) of
             Inl e \<Rightarrow> (Inl e, d)
           | Inr users1 \<Rightarrow>
              (case (case p_to_customer_id of
                       None \<Rightarrow> Inr users1
                     | Some t \<Rightarrow> update_balance users1 t (\<lambda>b. b + p_amount)) of
                 Inl e \<Rightarrow> (Inl e, d\<lparr>BankUser := users1\<rparr>)
               | Inr users2 \<Rightarrow>
                   insert_transaction (d\<lparr>BankUser := users2\<rparr>) now p_from_customer_id
                     p_to_customer_id p_amount ''transfer'' p_description))"

definition deposit_money ::
  "db \<Rightarrow> nat \<Rightarrow> int \<Rightarrow> rat \<Rightarrow> string option \<Rightarrow> (error + int) \<times> db" where
  "deposit_money d now p_customer_id p_amount p_description =
     (if p_amount \<le> 0 then (Inl AmountMustBePositive, d)
      else if BankUser d p_customer_id = None then (Inl CustomerNotFound, d)
      else case update_balance (BankUser d) p_customer_id (\<lambda>b. b + p_amount) of
             Inl e \<Rightarrow> (Inl e, d)
           | Inr users1 \<Rightarrow>
               insert_transaction (d\<lparr>BankUser := users1\<rparr>) now p_customer_id None p_amount
                 ''deposit'' p_description)"

definition withdraw_money ::
  "db \<Rightarrow> nat \<Rightarrow> int \<Rightarrow> rat \<Rightarrow> string option \<Rightarrow> (error + int) \<times> db" where
  "withdraw_money d now p_customer_id p_amount p_description =
     (if p_amount \<le> 0 then (Inl AmountMustBePositive, d)
      else case BankUser d p_customer_id of
             None \<Rightarrow> (Inl CustomerNotFound, d)
           | Some u \<Rightarrow>
               if balance u < p_amount then (Inl InsufficientBalance, d)
               else (case update_balance (BankUser d) p_customer_id (\<lambda>b. b - p_amount) of
                       Inl e \<Rightarrow> (Inl e, d)
                     | Inr users1 \<Rightarrow>
                         insert_transaction (d\<lparr>BankUser := users1\<rparr>) now p_customer_id None
                           p_amount ''withdrawal'' p_description))"

section \<open>Models\<close>

text \<open>
  \<^verbatim>\<open>database.transaction\<close>: \<^verbatim>\<open>BEGIN\<close>, the callback, then \<^verbatim>\<open>COMMIT\<close>, or \<^verbatim>\<open>ROLLBACK\<close> and
  rethrow when the callback throws. A rollback restores both tables; a sequence is not
  transactional and keeps the values it has handed out.
\<close>

definition database_transaction ::
  "db \<Rightarrow> (db \<Rightarrow> (error + 'a) \<times> db) \<Rightarrow> (error + 'a) \<times> db" where
  "database_transaction d callback =
     (case callback d of
        (Inl e, client) \<Rightarrow> (Inl e, d\<lparr>transaction_id_seq := transaction_id_seq client\<rparr>)
      | (Inr v, client) \<Rightarrow> (Inr v, client))"

text \<open>A transaction row with the two names of the \<^verbatim>\<open>LEFT JOIN\<close>s on \<^verbatim>\<open>BankUser\<close>.\<close>

record joined_row =
  row :: transaction_row
  from_customer_name :: "string option"
  to_customer_name :: "string option"

definition customer_name :: "db \<Rightarrow> int option \<Rightarrow> string option" where
  "customer_name d cid = (case cid of None \<Rightarrow> None | Some c \<Rightarrow> map_option name (BankUser d c))"

definition join_names :: "db \<Rightarrow> transaction_row \<Rightarrow> joined_row" where
  "join_names d t =
     \<lparr>row = t, from_customer_name = customer_name d (from_customer_id t),
      to_customer_name = customer_name d (to_customer_id t)\<rparr>"

text \<open>\<^verbatim>\<open>transactionModel.findById\<close>: \<^verbatim>\<open>result.rows[0] || null\<close>.\<close>

definition transactionModel_findById :: "db \<Rightarrow> int \<Rightarrow> joined_row option" where
  "transactionModel_findById d transactionId =
     map_option (join_names d) (find (\<lambda>t. transaction_id t = transactionId) (Transactions d))"

text \<open>\<^verbatim>\<open>bankUserModel.findById\<close> and \<^verbatim>\<open>bankUserModel.getBalance\<close>.\<close>

definition bankUserModel_findById :: "db \<Rightarrow> int \<Rightarrow> bank_user option" where
  "bankUserModel_findById d customerId = BankUser d customerId"

definition bankUserModel_getBalance :: "db \<Rightarrow> int \<Rightarrow> error + rat" where
  "bankUserModel_getBalance d customerId =
     (case BankUser d customerId of None \<Rightarrow> Inl UserNotFound | Some u \<Rightarrow> Inr (balance u))"

text \<open>
  \<^verbatim>\<open>executeTransfer\<close>, \<^verbatim>\<open>executeDeposit\<close> and \<^verbatim>\<open>executeWithdrawal\<close> of \<^verbatim>\<open>transactionModel\<close>. Each
  returns \<^verbatim>\<open>detailsResult.rows[0]\<close>, which is \<^verbatim>\<open>undefined\<close> (here \<open>None\<close>) when the details
  query finds no row.
\<close>

definition executeTransfer ::
  "db \<Rightarrow> nat \<Rightarrow> int \<Rightarrow> int \<Rightarrow> rat \<Rightarrow> string \<Rightarrow> (error + joined_row option) \<times> db" where
  "executeTransfer d now fromCustomerId toCustomerId amt descr =
     database_transaction d (\<lambda>client.
       if \<not> validate_transfer client fromCustomerId (Some toCustomerId) amt
       then (Inl InvalidTransfer, client)
       else (case execute_transfer client now fromCustomerId (Some toCustomerId) amt (Some descr) of
               (Inl e, client') \<Rightarrow> (Inl e, client')
             | (Inr transactionId, client') \<Rightarrow>
                 (Inr (transactionModel_findById client' transactionId), client')))"

definition executeDeposit ::
  "db \<Rightarrow> nat \<Rightarrow> int \<Rightarrow> rat \<Rightarrow> string \<Rightarrow> (error + joined_row option) \<times> db" where
  "executeDeposit d now customerId amt descr =
     database_transaction d (\<lambda>client.
       (case deposit_money client now customerId amt (Some descr) of
          (Inl e, client') \<Rightarrow> (Inl e, client')
        | (Inr transactionId, client') \<Rightarrow>
            (Inr (transactionModel_findById client' transactionId), client')))"

definition executeWithdrawal ::
  "db \<Rightarrow> nat \<Rightarrow> int \<Rightarrow> rat \<Rightarrow> string \<Rightarrow> (error + joined_row option) \<times> db" where
  "executeWithdrawal d now customerId amt descr =
     database_transaction d (\<lambda>client.
       (case withdraw_money client now customerId amt (Some descr) of
          (Inl e, client') \<Rightarrow> (Inl e, client')
        | (Inr transactionId, client') \<Rightarrow>
            (Inr (transactionModel_findById client' transactionId), client')))"

section \<open>Service\<close>

text \<open>
  The functions of \<^verbatim>\<open>bankService.js\<close>. A customer or transaction identifier is an integer
  and is falsy when it is 0; a description is falsy when it is absent or empty. The recipient of a transfer is an
  integer, so \<^verbatim>\<open>to_customer_id\<close> and \<^verbatim>\<open>parseInt(to_customer_id)\<close> are one parameter
  \<open>toCustomerId\<close>, and the digits-only test fails when it is negative. \<open>now\<close> is
  the clock reading of the call. Logging is left out.
\<close>

record money_data =
  txn :: joined_row
  new_balance :: rat

text \<open>\<^verbatim>\<open>description || fallback\<close>.\<close>

definition or_default :: "string option \<Rightarrow> string \<Rightarrow> string" where
  "or_default descr fallback =
     (case descr of None \<Rightarrow> fallback | Some s \<Rightarrow> if s = [] then fallback else s)"

record balance_data = bank_user +
  customer_id :: int
  last_updated :: nat

definition getBalance :: "db \<Rightarrow> nat \<Rightarrow> int \<Rightarrow> error + balance_data" where
  "getBalance d now customerId =
     (if customerId = 0 then Inl CustomerIdRequired
      else case bankUserModel_findById d customerId of
             None \<Rightarrow> Inl UserNotFound
           | Some user \<Rightarrow>
               (case bankUserModel_getBalance d customerId of
                  Inl e \<Rightarrow> Inl e
                | Inr b \<Rightarrow>
                    Inr \<lparr>name = name user, balance = b, customer_id = customerId,
                         last_updated = now\<rparr>))"

text \<open>
  The checks of \<^verbatim>\<open>transferMoney\<close> that precede \<^verbatim>\<open>executeTransfer\<close>, in source order; when
  all pass, the result is \<^verbatim>\<open>transferAmount\<close>. A value that is not finite is settled by
  the first two tests on the amount (\<open>not_positive\<close>, \<open>exceeds\<close>), so the amount is finite
  from there on.
\<close>

definition transferMoney_checks :: "db \<Rightarrow> int \<Rightarrow> int \<Rightarrow> js_value \<Rightarrow> error + rat" where
  "transferMoney_checks d customerId toCustomerId amt =
     (case amt of
        Falsy \<Rightarrow> Inl RecipientAndAmountRequired
      | Truthy txt transferAmount \<Rightarrow>
          if toCustomerId = 0 then Inl RecipientAndAmountRequired
          else if toCustomerId < 0 then Inl RecipientIdMustBeNumber
          else if not_positive transferAmount then Inl AmountMustBePositiveNumber
          else if exceeds transferAmount 10000 then Inl MaximumTransferAmount
          else (case transferAmount of
                  Finite v \<Rightarrow>
                    if decimal_places txt > 2 then Inl MaximumTwoDecimalPlaces
                    else if customerId = toCustomerId then Inl CannotTransferToYourself
                    else if bankUserModel_findById d customerId = None
                      then Inl SenderAccountNotFound
                    else if bankUserModel_findById d toCustomerId = None
                      then Inl RecipientNotFound
                    else (case bankUserModel_getBalance d customerId of
                            Inl e \<Rightarrow> Inl e
                          | Inr senderBalance \<Rightarrow>
                              if senderBalance < v then Inl InsufficientBalance else Inr v)
                | _ \<Rightarrow> Inl AmountMustBePositiveNumber))"

text \<open>
  What follows a model call in all three operations: read the new balance, then build
  the reply from the returned row.
\<close>

definition reply_with_balance ::
  "(error + joined_row option) \<times> db \<Rightarrow> int \<Rightarrow> (error + money_data) \<times> db" where
  "reply_with_balance res customerId =
     (case res of
        (Inl e, d') \<Rightarrow> (Inl e, d')
      | (Inr t, d') \<Rightarrow>
          (case bankUserModel_getBalance d' customerId of
             Inl e \<Rightarrow> (Inl e, d')
           | Inr newBalance \<Rightarrow>
               (case t of
                  None \<Rightarrow> (Inl TypeError, d')
                | Some r \<Rightarrow> (Inr \<lparr>txn = r, new_balance = newBalance\<rparr>, d'))))"

definition transferMoney ::
  "db \<Rightarrow> nat \<Rightarrow> int \<Rightarrow> int \<Rightarrow> js_value \<Rightarrow> string option \<Rightarrow> (error + money_data) \<times> db" where
  "transferMoney d now customerId toCustomerId amt descr =
     (case transferMoney_checks d customerId toCustomerId amt of
        Inl e \<Rightarrow> (Inl e, d)
      | Inr transferAmount \<Rightarrow>
          reply_with_balance
            (executeTransfer d now customerId toCustomerId transferAmount
               (or_default descr ''Money transfer''))
            customerId)"

text \<open>
  The checks and \<^verbatim>\<open>executeTransfer\<close> are separated by \<^verbatim>\<open>await\<close>s, so other requests can
  commit in between: the checks read the state \<open>d_checks\<close>, and \<^verbatim>\<open>executeTransfer\<close> opens
  its transaction on the later state \<open>d\<close>. \<open>transferMoney\<close> is the case in which nothing
  happened in between.
\<close>

definition transferMoney_interleaved ::
  "db \<Rightarrow> db \<Rightarrow> nat \<Rightarrow> int \<Rightarrow> int \<Rightarrow> js_value \<Rightarrow> string option \<Rightarrow> (error + money_data) \<times> db" where
  "transferMoney_interleaved d_checks d now customerId toCustomerId amt descr =
     (case transferMoney_checks d_checks customerId toCustomerId amt of
        Inl e \<Rightarrow> (Inl e, d)
      | Inr transferAmount \<Rightarrow>
          reply_with_balance
            (executeTransfer d now customerId toCustomerId transferAmount
               (or_default descr ''Money transfer''))
            customerId)"

definition depositMoney ::
  "db \<Rightarrow> nat \<Rightarrow> int \<Rightarrow> js_value \<Rightarrow> string option \<Rightarrow> (error + money_data) \<times> db" where
  "depositMoney d now customerId amt descr =
     (case amt of
        Falsy \<Rightarrow> (Inl AmountRequired, d)
      | Truthy txt depositAmount \<Rightarrow>
          if not_positive depositAmount then (Inl AmountMustBePositiveNumber, d)
          else if exceeds depositAmount 50000 then (Inl MaximumDepositAmount, d)
          else (case depositAmount of
                  Finite v \<Rightarrow>
                    if bankUserModel_findById d customerId = None then (Inl UserNotFound, d)
                    else reply_with_balance
                           (executeDeposit d now customerId v (or_default descr ''Deposit''))
                           customerId
                | _ \<Rightarrow> (Inl AmountMustBePositiveNumber, d)))"

definition withdrawMoney ::
  "db \<Rightarrow> nat \<Rightarrow> int \<Rightarrow> js_value \<Rightarrow> string option \<Rightarrow> (error + money_data) \<times> db" where
  "withdrawMoney d now customerId amt descr =
     (case amt of
        Falsy \<Rightarrow> (Inl AmountRequired, d)
      | Truthy txt withdrawalAmount \<Rightarrow>
          if not_positive withdrawalAmount then (Inl AmountMustBePositiveNumber, d)
          else if exceeds withdrawalAmount 25000 then (Inl MaximumWithdrawalAmount, d)
          else (case withdrawalAmount of
                  Finite v \<Rightarrow>
                    if bankUserModel_findById d customerId = None then (Inl UserNotFound, d)
                    else (case bankUserModel_getBalance d customerId of
                            Inl e \<Rightarrow> (Inl e, d)
                          | Inr currentBalance \<Rightarrow>
                              if currentBalance < v then (Inl InsufficientBalance, d)
                              else reply_with_balance
                                     (executeWithdrawal d now customerId v
                                        (or_default descr ''Withdrawal''))
                                     customerId)
                | _ \<Rightarrow> (Inl AmountMustBePositiveNumber, d)))"

definition getTransactionDetails :: "db \<Rightarrow> int \<Rightarrow> int \<Rightarrow> error + joined_row" where
  "getTransactionDetails d customerId transactionId =
     (if customerId = 0 \<or> transactionId = 0 then Inl IdsRequired
      else case transactionModel_findById d transactionId of
             None \<Rightarrow> Inl TransactionNotFound
           | Some t \<Rightarrow>
               if from_customer_id (row t) \<noteq> Some customerId
                  \<and> to_customer_id (row t) \<noteq> Some customerId
               then Inl AccessDenied
               else Inr t)"

subsection \<open>Transaction history\<close>

record history_options =
  limit :: js_int
  offset :: js_int
  type_filter :: "string option"
  status_filter :: "string option"
  start_date :: "nat option"
  end_date :: "nat option"

record history_data =
  transactions :: "joined_row list"
  page_limit :: int
  page_offset :: int
  total :: nat
  has_more :: bool

definition truthy :: "string option \<Rightarrow> bool" where
  "truthy s = (case s of None \<Rightarrow> False | Some x \<Rightarrow> x \<noteq> [])"

text \<open>The \<^verbatim>\<open>WHERE\<close> clause shared by \<^verbatim>\<open>getUserTransactions\<close> and \<^verbatim>\<open>getUserTransactionCount\<close>.\<close>

definition history_where :: "int \<Rightarrow> history_options \<Rightarrow> transaction_row \<Rightarrow> bool" where
  "history_where customerId opts t =
     ((from_customer_id t = Some customerId \<or> to_customer_id t = Some customerId)
      \<and> (truthy (type_filter opts) \<longrightarrow> Some (transaction_type t) = type_filter opts)
      \<and> (truthy (status_filter opts) \<longrightarrow> Some (status t) = status_filter opts)
      \<and> (case start_date opts of None \<Rightarrow> True | Some s \<Rightarrow> s \<le> transaction_date t)
      \<and> (case end_date opts of None \<Rightarrow> True | Some e \<Rightarrow> transaction_date t \<le> e))"

text \<open>
  \<^verbatim>\<open>ORDER BY t.transaction_date DESC\<close> names no further key, so SQL leaves the order of rows
  with equal dates to the database, query by query. The order the database gives is a
  parameter \<open>ord\<close> of the read: a function for which \<open>order_by_transaction_date_desc\<close>
  holds, that is, which returns the rows it is given, latest date first.
\<close>

type_synonym row_order = "transaction_row list \<Rightarrow> transaction_row list"

definition order_by_transaction_date_desc :: "row_order \<Rightarrow> bool" where
  "order_by_transaction_date_desc ord =
     (\<forall>rows. mset (ord rows) = mset rows
             \<and> sorted_wrt (\<lambda>a b. transaction_date b \<le> transaction_date a) (ord rows))"

text \<open>Two such orders: equal dates in insertion order, and equal dates in reverse.\<close>

definition ties_in_insertion_order :: row_order where
  "ties_in_insertion_order rows = sort_key (\<lambda>t. - int (transaction_date t)) rows"

definition ties_latest_insertion_first :: row_order where
  "ties_latest_insertion_first rows = rev (sort_key transaction_date rows)"

text \<open>\<^verbatim>\<open>... ORDER BY t.transaction_date DESC LIMIT lmt OFFSET ofs\<close>.\<close>

definition getUserTransactions ::
  "db \<Rightarrow> row_order \<Rightarrow> int \<Rightarrow> history_options \<Rightarrow> int \<Rightarrow> int \<Rightarrow> joined_row list" where
  "getUserTransactions d ord customerId opts lmt ofs =
     map (join_names d)
       (take (nat lmt) (drop (nat ofs)
          (ord (filter (history_where customerId opts) (Transactions d)))))"

definition getUserTransactionCount :: "db \<Rightarrow> int \<Rightarrow> history_options \<Rightarrow> nat" where
  "getUserTransactionCount d customerId opts =
     length (filter (history_where customerId opts) (Transactions d))"

text \<open>Destructuring default, then \<^verbatim>\<open>parseInt\<close>; \<open>None\<close> is \<^verbatim>\<open>NaN\<close>.\<close>

fun parseInt_default :: "js_int \<Rightarrow> int \<Rightarrow> int option" where
  "parseInt_default JsUndefined dflt = Some dflt"
| "parseInt_default JsNaN dflt = None"
| "parseInt_default (JsInt n) dflt = Some n"

text \<open>The validation of \<^verbatim>\<open>getTransactionHistory\<close>; when it passes, the parsed limit and offset.\<close>

definition getTransactionHistory_checks :: "int \<Rightarrow> history_options \<Rightarrow> error + int \<times> int" where
  "getTransactionHistory_checks customerId opts =
     (if customerId = 0 then Inl CustomerIdRequired
      else case parseInt_default (limit opts) 10 of
        None \<Rightarrow> Inl LimitOutOfRange
      | Some parsedLimit \<Rightarrow>
         (if parsedLimit \<le> 0 \<or> parsedLimit > 100 then Inl LimitOutOfRange
          else case parseInt_default (offset opts) 0 of
            None \<Rightarrow> Inl OffsetNegative
          | Some parsedOffset \<Rightarrow>
             (if parsedOffset < 0 then Inl OffsetNegative
              else if truthy (type_filter opts)
                      \<and> type_filter opts \<notin> Some ` {''transfer'', ''deposit'', ''withdrawal''}
                then Inl InvalidTransactionType
              else if truthy (status_filter opts)
                      \<and> status_filter opts \<notin> Some ` {''completed'', ''pending'', ''failed''}
                then Inl InvalidTransactionStatus
              else Inr (parsedLimit, parsedOffset))))"

definition getTransactionHistory ::
  "db \<Rightarrow> row_order \<Rightarrow> int \<Rightarrow> history_options \<Rightarrow> error + history_data" where
  "getTransactionHistory d ord customerId opts =
     (case getTransactionHistory_checks customerId opts of
        Inl e \<Rightarrow> Inl e
      | Inr (parsedLimit, parsedOffset) \<Rightarrow>
          (let totalCount = getUserTransactionCount d customerId opts
           in Inr \<lparr>transactions =
                     getUserTransactions d ord customerId opts parsedLimit parsedOffset,
                   page_limit = parsedLimit, page_offset = parsedOffset,
                   total = totalCount,
                   has_more = (parsedOffset + parsedLimit < int totalCount)\<rparr>))"

section \<open>Requests\<close>

text \<open>
  The routes of \<^verbatim>\<open>bankController\<close> that reach the functions above. The first argument of
  each request is \<^verbatim>\<open>req.user.customer_id\<close>. The reads are \<^verbatim>\<open>SELECT\<close> statements only.
\<close>

datatype request =
    GetBalance int
  | TransferMoney int int js_value "string option"
  | DepositMoney int js_value "string option"
  | WithdrawMoney int js_value "string option"
  | GetTransactionHistory int history_options
  | GetTransactionDetails int int

datatype reply =
    Balance balance_data
  | Money money_data
  | History history_data
  | Details joined_row

definition money_reply :: "(error + money_data) \<times> db \<Rightarrow> (error + reply) \<times> db" where
  "money_reply res = (map_sum id Money (fst res), snd res)"

text \<open>
  A request is served at a clock reading \<open>now\<close>, with the database ordering the rows of a
  history query by \<open>ord\<close>.
\<close>

fun serve :: "nat \<Rightarrow> row_order \<Rightarrow> request \<Rightarrow> db \<Rightarrow> (error + reply) \<times> db" where
  "serve now ord (GetBalance c) d = (map_sum id Balance (getBalance d now c), d)"
| "serve now ord (TransferMoney c t a ds) d = money_reply (transferMoney d now c t a ds)"
| "serve now ord (DepositMoney c a ds) d = money_reply (depositMoney d now c a ds)"
| "serve now ord (WithdrawMoney c a ds) d = money_reply (withdrawMoney d now c a ds)"
| "serve now ord (GetTransactionHistory c opts) d =
     (map_sum id History (getTransactionHistory d ord c opts), d)"
| "serve now ord (GetTransactionDetails c t) d =
     (map_sum id Details (getTransactionDetails d c t), d)"

text \<open>A sequence of requests, each with the clock reading and row order it is served with.\<close>

fun run :: "db \<Rightarrow> (nat \<times> row_order \<times> request) list \<Rightarrow> db" where
  "run d [] = d"
| "run d ((now, ord, r) # rs) = run (snd (serve now ord r d)) rs"

section \<open>Invariants of the tables\<close>

definition every_balance :: "(rat \<Rightarrow> bool) \<Rightarrow> db \<Rightarrow> bool" where
  "every_balance Q d = (\<forall>c u. BankUser d c = Some u \<longrightarrow> Q (balance u))"

text \<open>\<^verbatim>\<open>chk_balance_non_negative\<close>, as a property of the table.\<close>

definition balances_non_negative :: "db \<Rightarrow> bool" where
  "balances_non_negative d = every_balance (\<lambda>b. 0 \<le> b) d"

text \<open>The scale of the column \<^verbatim>\<open>balance DECIMAL(15, 2)\<close>, as a property of the table.\<close>

definition two_decimals :: "rat \<Rightarrow> bool" where
  "two_decimals x = (of_int \<lfloor>x * 100\<rfloor> = x * 100)"

definition balances_two_decimals :: "db \<Rightarrow> bool" where
  "balances_two_decimals d = every_balance two_decimals d"

text \<open>A property of every value that an \<^verbatim>\<open>UPDATE\<close> of \<^verbatim>\<open>balance\<close> can store.\<close>

definition storable :: "(rat \<Rightarrow> bool) \<Rightarrow> bool" where
  "storable Q = (\<forall>x b. decimal_15_2 x = Inr b \<and> 0 \<le> b \<longrightarrow> Q b)"

text \<open>The sum of all balances.\<close>

definition total_balance :: "(int \<rightharpoonup> bank_user) \<Rightarrow> rat" where
  "total_balance users = (\<Sum>c \<in> dom users. balance (the (users c)))"

definition sum_balances :: "db \<Rightarrow> rat" where
  "sum_balances d = total_balance (BankUser d)"


section \<open>Example states\<close>

text \<open>Account 1 holds 5000 and account 2 holds 3000; nothing has been recorded yet.\<close>

definition example_db :: db where
  "example_db =
     \<lparr>BankUser = [1 \<mapsto> \<lparr>name = ''A'', balance = 5000\<rparr>, 2 \<mapsto> \<lparr>name = ''B'', balance = 3000\<rparr>],
      Transactions = [], transaction_id_seq = 0\<rparr>"

text \<open>The numbers 250, 9000 and 500 as request amounts.\<close>

definition example_requests :: "(nat \<times> row_order \<times> request) list" where
  "example_requests =
     [(1, ties_in_insertion_order, DepositMoney 1 (Truthy ''250'' (Finite 250)) None),
      (2, ties_in_insertion_order, WithdrawMoney 2 (Truthy ''9000'' (Finite 9000)) None),
      (3, ties_in_insertion_order,
          TransferMoney 1 2 (Truthy ''500'' (Finite 500)) (Some ''x''))]"

text \<open>Account 1 holds 100.\<close>

definition small_db :: db where
  "small_db =
     \<lparr>BankUser = [1 \<mapsto> \<lparr>name = ''A'', balance = 100\<rparr>], Transactions = [],
      transaction_id_seq = 0\<rparr>"


text \<open>A state with a transfer from 1 to 2 and a deposit by 2 on record.\<close>

definition history_db :: db where
  "history_db =
     \<lparr>BankUser = [1 \<mapsto> \<lparr>name = ''A'', balance = 4500\<rparr>, 2 \<mapsto> \<lparr>name = ''B'', balance = 3550\<rparr>,
                  3 \<mapsto> \<lparr>name = ''C'', balance = 0\<rparr>],
      Transactions =
        [\<lparr>transaction_id = 1, from_customer_id = Some 1, to_customer_id = Some 2, amount = 500,
          transaction_type = ''transfer'', transaction_date = 7, status = ''completed'',
          description = Some ''x''\<rparr>,
         \<lparr>transaction_id = 2, from_customer_id = Some 2, to_customer_id = None, amount = 50,
          transaction_type = ''deposit'', transaction_date = 9, status = ''completed'',
          description = Some ''Deposit''\<rparr>],
      transaction_id_seq = 2\<rparr>"

definition no_options :: history_options where
  "no_options =
     \<lparr>limit = JsUndefined, offset = JsUndefined, type_filter = None, status_filter = None,
      start_date = None, end_date = None\<rparr>"

text \<open>A state with three deposits by account 1 on record, all of the same date.\<close>

definition deposit_row :: "int \<Rightarrow> transaction_row" where
  "deposit_row i =
     \<lparr>transaction_id = i, from_customer_id = Some 1, to_customer_id = None, amount = 10,
      transaction_type = ''deposit'', transaction_date = 7, status = ''completed'',
      description = Some ''Deposit''\<rparr>"

definition same_date_db :: db where
  "same_date_db =
     \<lparr>BankUser = [1 \<mapsto> \<lparr>name = ''A'', balance = 30\<rparr>],
      Transactions = [deposit_row 1, deposit_row 2, deposit_row 3],
      transaction_id_seq = 3\<rparr>"

section \<open>Properties of the statements and procedures\<close>

lemma update_balance_cases:
  assumes "update_balance users c f = Inr users'"
  shows "(users c = None \<and> users' = users) \<or>
         (\<exists>u b. users c = Some u \<and> decimal_15_2 (f (balance u)) = Inr b \<and> 0 \<le> b
                \<and> users' = users(c \<mapsto> u\<lparr>balance := b\<rparr>))"
  using assms
  by (auto simp: update_balance_def split: option.splits sum.splits if_splits)

lemma update_balance_every:
  assumes "update_balance users c f = Inr users'" and "storable Q"
    and "\<forall>k u. users k = Some u \<longrightarrow> Q (balance u)"
  shows "\<forall>k u. users' k = Some u \<longrightarrow> Q (balance u)"
  using update_balance_cases[OF assms(1)] assms(2,3)
  by (auto simp: storable_def split: if_splits)

lemma insert_transaction_BankUser:
  "insert_transaction d now f t a ty ds = (r, d') \<Longrightarrow> BankUser d' = BankUser d"
  by (auto simp: insert_transaction_def Let_def split: sum.splits if_splits)

lemma execute_transfer_steps:
  assumes "execute_transfer d now f t a ds = (Inr i, d')"
  obtains users1 users2 where
    "validate_transfer d f t a"
    "update_balance (BankUser d) f (\<lambda>b. b - a) = Inr users1"
    "(case t of None \<Rightarrow> Inr users1 | Some t' \<Rightarrow> update_balance users1 t' (\<lambda>b. b + a)) = Inr users2"
    "insert_transaction (d\<lparr>BankUser := users2\<rparr>) now f t a ''transfer'' ds = (Inr i, d')"
  using assms by (auto simp: execute_transfer_def split: if_splits sum.splits)

lemma deposit_money_steps:
  assumes "deposit_money d now c a ds = (Inr i, d')"
  obtains users1 where
    "0 < a" "BankUser d c \<noteq> None"
    "update_balance (BankUser d) c (\<lambda>b. b + a) = Inr users1"
    "insert_transaction (d\<lparr>BankUser := users1\<rparr>) now c None a ''deposit'' ds = (Inr i, d')"
  using assms by (auto simp: deposit_money_def split: if_splits sum.splits)

lemma withdraw_money_steps:
  assumes "withdraw_money d now c a ds = (Inr i, d')"
  obtains u users1 where
    "0 < a" "BankUser d c = Some u" "a \<le> balance u"
    "update_balance (BankUser d) c (\<lambda>b. b - a) = Inr users1"
    "insert_transaction (d\<lparr>BankUser := users1\<rparr>) now c None a ''withdrawal'' ds = (Inr i, d')"
  using assms by (auto simp: withdraw_money_def split: if_splits sum.splits option.splits)

lemma execute_transfer_every:
  assumes "execute_transfer d now f t a ds = (Inr i, d')" and "storable Q" and "every_balance Q d"
  shows "every_balance Q d'"
proof -
  from assms(1) obtain users1 users2 where
    u1: "update_balance (BankUser d) f (\<lambda>b. b - a) = Inr users1" and
    u2: "(case t of None \<Rightarrow> Inr users1 | Some t' \<Rightarrow> update_balance users1 t' (\<lambda>b. b + a)) = Inr users2" and
    ins: "insert_transaction (d\<lparr>BankUser := users2\<rparr>) now f t a ''transfer'' ds = (Inr i, d')"
    by (rule execute_transfer_steps)
  have n1: "\<forall>k u. users1 k = Some u \<longrightarrow> Q (balance u)"
    using update_balance_every[OF u1 assms(2)] assms(3) by (simp add: every_balance_def)
  have n2: "\<forall>k u. users2 k = Some u \<longrightarrow> Q (balance u)"
  proof (cases t)
    case None
    with u2 n1 show ?thesis by simp
  next
    case (Some t')
    with u2 have "update_balance users1 t' (\<lambda>b. b + a) = Inr users2" by simp
    from update_balance_every[OF this assms(2) n1] show ?thesis .
  qed
  from insert_transaction_BankUser[OF ins] have "BankUser d' = users2" by simp
  with n2 show ?thesis by (simp add: every_balance_def)
qed

lemma deposit_money_every:
  assumes "deposit_money d now c a ds = (Inr i, d')" and "storable Q" and "every_balance Q d"
  shows "every_balance Q d'"
proof -
  from assms(1) obtain users1 where
    u1: "update_balance (BankUser d) c (\<lambda>b. b + a) = Inr users1" and
    ins: "insert_transaction (d\<lparr>BankUser := users1\<rparr>) now c None a ''deposit'' ds = (Inr i, d')"
    by (rule deposit_money_steps)
  have "\<forall>k u. users1 k = Some u \<longrightarrow> Q (balance u)"
    using update_balance_every[OF u1 assms(2)] assms(3) by (simp add: every_balance_def)
  moreover from insert_transaction_BankUser[OF ins] have "BankUser d' = users1" by simp
  ultimately show ?thesis by (simp add: every_balance_def)
qed

lemma withdraw_money_every:
  assumes "withdraw_money d now c a ds = (Inr i, d')" and "storable Q" and "every_balance Q d"
  shows "every_balance Q d'"
proof -
  from assms(1) obtain users1 where
    u1: "update_balance (BankUser d) c (\<lambda>b. b - a) = Inr users1" and
    ins: "insert_transaction (d\<lparr>BankUser := users1\<rparr>) now c None a ''withdrawal'' ds = (Inr i, d')"
    by (rule withdraw_money_steps)
  have "\<forall>k u. users1 k = Some u \<longrightarrow> Q (balance u)"
    using update_balance_every[OF u1 assms(2)] assms(3) by (simp add: every_balance_def)
  moreover from insert_transaction_BankUser[OF ins] have "BankUser d' = users1" by simp
  ultimately show ?thesis by (simp add: every_balance_def)
qed

section \<open>Properties of the models and the service\<close>

lemma database_transaction_invariant:
  assumes "database_transaction d cb = (r, d')"
    and "\<And>v c. cb d = (Inr v, c) \<Longrightarrow> P c"
    and "P d" and "\<And>x s. P x \<Longrightarrow> P (x\<lparr>transaction_id_seq := s\<rparr>)"
  shows "P d'"
  using assms by (auto simp: database_transaction_def split: prod.splits sum.splits)

lemma database_transaction_failure:
  assumes "database_transaction d cb = (Inl e, d')"
  shows "BankUser d' = BankUser d \<and> Transactions d' = Transactions d"
  using assms by (auto simp: database_transaction_def split: prod.splits sum.splits)

lemma every_balance_seq [simp]:
  "every_balance Q (x\<lparr>transaction_id_seq := s\<rparr>) = every_balance Q x"
  by (simp add: every_balance_def)

lemma executeTransfer_every:
  assumes "executeTransfer d now f t a ds = (r, d')" and "storable Q" and "every_balance Q d"
  shows "every_balance Q d'"
  using assms(1) unfolding executeTransfer_def
  by (rule database_transaction_invariant)
     (auto split: if_splits prod.splits sum.splits intro: execute_transfer_every assms(2,3))

lemma executeDeposit_every:
  assumes "executeDeposit d now c a ds = (r, d')" and "storable Q" and "every_balance Q d"
  shows "every_balance Q d'"
  using assms(1) unfolding executeDeposit_def
  by (rule database_transaction_invariant)
     (auto split: if_splits prod.splits sum.splits intro: deposit_money_every assms(2,3))

lemma executeWithdrawal_every:
  assumes "executeWithdrawal d now c a ds = (r, d')" and "storable Q" and "every_balance Q d"
  shows "every_balance Q d'"
  using assms(1) unfolding executeWithdrawal_def
  by (rule database_transaction_invariant)
     (auto split: if_splits prod.splits sum.splits intro: withdraw_money_every assms(2,3))

lemma snd_reply_with_balance [simp]: "snd (reply_with_balance res c) = snd res"
  by (auto simp: reply_with_balance_def split: prod.splits sum.splits option.splits)

lemma transferMoney_every:
  "storable Q \<Longrightarrow> every_balance Q d \<Longrightarrow> every_balance Q (snd (transferMoney d now c t a ds))"
  by (auto simp: transferMoney_def split: sum.splits
           intro: executeTransfer_every[OF surjective_pairing])

lemma depositMoney_every:
  "storable Q \<Longrightarrow> every_balance Q d \<Longrightarrow> every_balance Q (snd (depositMoney d now c a ds))"
  by (auto simp: depositMoney_def split: js_value.splits js_float.splits
           intro: executeDeposit_every[OF surjective_pairing])

lemma withdrawMoney_every:
  "storable Q \<Longrightarrow> every_balance Q d \<Longrightarrow> every_balance Q (snd (withdrawMoney d now c a ds))"
  by (auto simp: withdrawMoney_def split: js_value.splits js_float.splits sum.splits
           intro: executeWithdrawal_every[OF surjective_pairing])

lemma serve_every:
  "storable Q \<Longrightarrow> every_balance Q d \<Longrightarrow> every_balance Q (snd (serve now ord r d))"
  by (cases r)
     (simp_all add: money_reply_def transferMoney_every depositMoney_every withdrawMoney_every)

lemma run_every:
  "storable Q \<Longrightarrow> every_balance Q d \<Longrightarrow> every_balance Q (run d rs)"
  by (induction rs arbitrary: d) (auto simp: serve_every)

lemma storable_non_negative: "storable (\<lambda>b. 0 \<le> b)"
  by (simp add: storable_def)

section \<open>Rounding and decimal places\<close>

lemma two_decimals_Ints: "two_decimals x \<longleftrightarrow> x * 100 \<in> \<int>"
  unfolding two_decimals_def
  by (metis Ints_of_int floor_of_int Ints_cases)

lemma round2_exact: assumes "two_decimals x" shows "round2 x = x"
proof -
  from assms obtain k :: int where k: "x * 100 = of_int k"
    unfolding two_decimals_Ints by (auto elim: Ints_cases)
  have a: "\<lfloor>x * 100 + 1 / 2\<rfloor> = k" unfolding k by linarith
  have b: "\<lfloor>- x * 100 + 1 / 2\<rfloor> = - k"
  proof -
    have "- x * 100 = of_int (- k)" using k by simp
    then show ?thesis by (simp only:) linarith
  qed
  show ?thesis
    unfolding round2_def a b using k by (auto simp: field_simps)
qed

lemma two_decimals_round2: "two_decimals (round2 x)"
  unfolding two_decimals_Ints round2_def by auto

lemma two_decimals_add: "two_decimals x \<Longrightarrow> two_decimals y \<Longrightarrow> two_decimals (x + y)"
  unfolding two_decimals_Ints by (simp add: distrib_right)

lemma two_decimals_diff: "two_decimals x \<Longrightarrow> two_decimals y \<Longrightarrow> two_decimals (x - y)"
  unfolding two_decimals_Ints by (simp add: left_diff_distrib)

lemma storable_two_decimals: "storable two_decimals"
  by (auto simp: storable_def decimal_15_2_def Let_def two_decimals_round2 split: if_splits)

section \<open>Conservation\<close>

lemma update_balance_dom:
  "update_balance users c f = Inr users' \<Longrightarrow> dom users' = dom users"
  by (drule update_balance_cases) (auto split: if_splits)

lemma total_balance_upd:
  assumes "finite (dom users)" and "users c = Some u"
  shows "total_balance (users(c \<mapsto> u')) = total_balance users - balance u + balance u'"
proof -
  let ?rest = "\<Sum>k \<in> dom users - {c}. balance (the (users k))"
  have c: "c \<in> dom users" using assms(2) by auto
  have "(\<Sum>k \<in> dom users. balance (the ((users(c \<mapsto> u')) k)))
          = balance (the ((users(c \<mapsto> u')) c))
            + (\<Sum>k \<in> dom users - {c}. balance (the ((users(c \<mapsto> u')) k)))"
    by (rule sum.remove[OF assms(1) c])
  moreover have "(\<Sum>k \<in> dom users - {c}. balance (the ((users(c \<mapsto> u')) k))) = ?rest"
    by (rule sum.cong) auto
  ultimately have new: "total_balance (users(c \<mapsto> u')) = balance u' + ?rest"
    by (simp add: total_balance_def insert_absorb[OF c])
  have "(\<Sum>k \<in> dom users. balance (the (users k))) = balance (the (users c)) + ?rest"
    by (rule sum.remove[OF assms(1) c])
  then have old: "total_balance users = balance u + ?rest"
    by (simp add: total_balance_def assms(2))
  show ?thesis unfolding new old by simp
qed

lemma update_balance_exact:
  assumes "update_balance users c f = Inr users'" and "users c = Some u"
    and "two_decimals (f (balance u))"
  shows "users' = users(c \<mapsto> u\<lparr>balance := f (balance u)\<rparr>)"
  using update_balance_cases[OF assms(1)] assms(2,3)
  by (auto simp: decimal_15_2_def Let_def round2_exact split: if_splits)

lemma execute_transfer_conserves:
  assumes ex: "execute_transfer d now f (Some t) a ds = (Inr i, d')"
    and inv: "balances_two_decimals d" and a: "two_decimals a"
  shows "sum_balances d' = sum_balances d"
proof -
  from ex obtain users1 users2 where
    v: "validate_transfer d f (Some t) a" and
    u1: "update_balance (BankUser d) f (\<lambda>b. b - a) = Inr users1" and
    u2: "update_balance users1 t (\<lambda>b. b + a) = Inr users2" and
    ins: "insert_transaction (d\<lparr>BankUser := users2\<rparr>) now f (Some t) a ''transfer'' ds = (Inr i, d')"
    by (rule execute_transfer_steps) simp
  from v obtain uf ut where uf: "BankUser d f = Some uf" and ut: "BankUser d t = Some ut"
    and ne: "t \<noteq> f"
    by (auto simp: validate_transfer_def split: option.splits if_splits)
  have df: "two_decimals (balance uf)" and dt: "two_decimals (balance ut)"
    using inv uf ut by (auto simp: balances_two_decimals_def every_balance_def)
  have e1: "users1 = (BankUser d)(f \<mapsto> uf\<lparr>balance := balance uf - a\<rparr>)"
    by (rule update_balance_exact[OF u1 uf]) (rule two_decimals_diff[OF df a])
  have ut1: "users1 t = Some ut" using e1 ne ut by simp
  have e2: "users2 = users1(t \<mapsto> ut\<lparr>balance := balance ut + a\<rparr>)"
    by (rule update_balance_exact[OF u2 ut1]) (rule two_decimals_add[OF dt a])
  have d': "BankUser d' = users2" using insert_transaction_BankUser[OF ins] by simp
  show ?thesis
  proof (cases "finite (dom (BankUser d))")
    case True
    then have f1: "finite (dom users1)" using update_balance_dom[OF u1] by simp
    have "total_balance users2 = total_balance users1 - balance ut + (balance ut + a)"
      unfolding e2 using total_balance_upd[OF f1 ut1] by simp
    also have "total_balance users1 = total_balance (BankUser d) - balance uf + (balance uf - a)"
      unfolding e1 using total_balance_upd[OF True uf] by simp
    finally show ?thesis by (simp add: sum_balances_def d')
  next
    case False
    moreover have "dom users2 = dom (BankUser d)"
      using update_balance_dom[OF u1] update_balance_dom[OF u2] by simp
    ultimately show ?thesis by (simp add: sum_balances_def d' total_balance_def)
  qed
qed

lemma sum_balances_seq [simp]:
  "sum_balances (x\<lparr>transaction_id_seq := s\<rparr>) = sum_balances x"
  by (simp add: sum_balances_def)

lemma executeTransfer_conserves:
  assumes "executeTransfer d now f t a ds = (r, d')"
    and "balances_two_decimals d" and "two_decimals a"
  shows "sum_balances d' = sum_balances d"
  using assms(1) unfolding executeTransfer_def
  by (rule database_transaction_invariant)
     (auto split: if_splits prod.splits sum.splits
           intro: execute_transfer_conserves assms(2,3))

text \<open>A transfer of an amount with at most two fractional digits keeps the sum.\<close>

lemma transferMoney_conserves:
  assumes "balances_two_decimals d" and "two_decimals v"
  shows "sum_balances (snd (transferMoney d now c t (Truthy txt (Finite v)) ds)) = sum_balances d"
proof (cases "transferMoney_checks d c t (Truthy txt (Finite v))")
  case (Inr w)
  then have "w = v"
    by (auto simp: transferMoney_checks_def split: if_splits sum.splits)
  with Inr show ?thesis
    using executeTransfer_conserves[OF surjective_pairing assms]
    by (simp add: transferMoney_def)
next
  case (Inl e)
  then show ?thesis by (simp add: transferMoney_def)
qed

section \<open>Committed and failed operations\<close>





lemma two_decimals_numeral [simp]: "two_decimals (numeral n)"
  by (simp add: two_decimals_Ints)

lemma transferMoney_interleaved_same:
  "transferMoney_interleaved d d now c t a ds = transferMoney d now c t a ds"
  by (simp add: transferMoney_interleaved_def transferMoney_def)

lemma executeWithdrawal_insufficient:
  assumes "BankUser d A = Some u" and "0 \<le> balance u" and "balance u < a"
  shows "executeWithdrawal d now A a ds = (Inl InsufficientBalance, d)"
  using assms by (simp add: executeWithdrawal_def withdraw_money_def database_transaction_def)

subsection \<open>The errors of each layer\<close>








subsection \<open>The row of each operation\<close>

lemma insert_transaction_appends:
  assumes "insert_transaction d now f t a ty ds = (Inr i, d')"
  shows "\<exists>e. Transactions d' = Transactions d @ [e] \<and> transaction_type e = ty
             \<and> from_customer_id e = Some f \<and> to_customer_id e = t"
  using assms
  by (auto simp: insert_transaction_def Let_def split: sum.splits if_splits)

lemma database_transaction_commit:
  "fst (database_transaction d cb) = Inr v \<Longrightarrow> cb d = (Inr v, snd (database_transaction d cb))"
  by (auto simp: database_transaction_def split: prod.splits sum.splits)

lemma fst_reply_with_balance_Inr:
  "fst (reply_with_balance res c) = Inr r \<Longrightarrow> \<exists>t. fst res = Inr t"
  by (auto simp: reply_with_balance_def split: prod.splits sum.splits option.splits)

lemma executeDeposit_appends:
  assumes "fst (executeDeposit d now c a ds) = Inr v"
  shows "\<exists>e. Transactions (snd (executeDeposit d now c a ds)) = Transactions d @ [e]
             \<and> transaction_type e = ''deposit''
             \<and> from_customer_id e = Some c \<and> to_customer_id e = None"
proof -
  from database_transaction_commit[OF assms[unfolded executeDeposit_def]]
  obtain i where dm: "deposit_money d now c a (Some ds) = (Inr i, snd (executeDeposit d now c a ds))"
    by (auto simp: executeDeposit_def split: prod.splits sum.splits)
  then obtain users1 where
    "insert_transaction (d\<lparr>BankUser := users1\<rparr>) now c None a ''deposit'' (Some ds)
       = (Inr i, snd (executeDeposit d now c a ds))"
    by (rule deposit_money_steps)
  from insert_transaction_appends[OF this] show ?thesis by simp
qed

lemma executeWithdrawal_appends:
  assumes "fst (executeWithdrawal d now c a ds) = Inr v"
  shows "\<exists>e. Transactions (snd (executeWithdrawal d now c a ds)) = Transactions d @ [e]
             \<and> transaction_type e = ''withdrawal''
             \<and> from_customer_id e = Some c \<and> to_customer_id e = None"
proof -
  from database_transaction_commit[OF assms[unfolded executeWithdrawal_def]]
  obtain i where dm: "withdraw_money d now c a (Some ds) = (Inr i, snd (executeWithdrawal d now c a ds))"
    by (auto simp: executeWithdrawal_def split: prod.splits sum.splits)
  then obtain users1 where
    "insert_transaction (d\<lparr>BankUser := users1\<rparr>) now c None a ''withdrawal'' (Some ds)
       = (Inr i, snd (executeWithdrawal d now c a ds))"
    by (rule withdraw_money_steps)
  from insert_transaction_appends[OF this] show ?thesis by simp
qed

lemma executeTransfer_appends:
  assumes "fst (executeTransfer d now c t a ds) = Inr v"
  shows "\<exists>e. Transactions (snd (executeTransfer d now c t a ds)) = Transactions d @ [e]
             \<and> transaction_type e = ''transfer''
             \<and> from_customer_id e = Some c \<and> to_customer_id e = Some t"
proof -
  from database_transaction_commit[OF assms[unfolded executeTransfer_def]]
  obtain i where dm: "execute_transfer d now c (Some t) a (Some ds) = (Inr i, snd (executeTransfer d now c t a ds))"
    by (auto simp: executeTransfer_def split: prod.splits sum.splits if_splits)
  then obtain users2 where
    "insert_transaction (d\<lparr>BankUser := users2\<rparr>) now c (Some t) a ''transfer'' (Some ds)
       = (Inr i, snd (executeTransfer d now c t a ds))"
    by (rule execute_transfer_steps)
  from insert_transaction_appends[OF this] show ?thesis by simp
qed

subsection \<open>The accounts of the table\<close>

lemma execute_transfer_dom:
  assumes "execute_transfer d now f t a ds = (Inr i, d')"
  shows "dom (BankUser d') = dom (BankUser d)"
proof -
  from assms obtain users1 users2 where
    u1: "update_balance (BankUser d) f (\<lambda>b. b - a) = Inr users1" and
    u2: "(case t of None \<Rightarrow> Inr users1 | Some t' \<Rightarrow> update_balance users1 t' (\<lambda>b. b + a)) = Inr users2" and
    ins: "insert_transaction (d\<lparr>BankUser := users2\<rparr>) now f t a ''transfer'' ds = (Inr i, d')"
    by (rule execute_transfer_steps)
  have "dom users2 = dom users1"
  proof (cases t)
    case None
    with u2 show ?thesis by simp
  next
    case (Some t')
    with u2 have "update_balance users1 t' (\<lambda>b. b + a) = Inr users2" by simp
    then show ?thesis by (rule update_balance_dom)
  qed
  with update_balance_dom[OF u1] insert_transaction_BankUser[OF ins] show ?thesis by simp
qed

lemma executeTransfer_dom:
  assumes "executeTransfer d now f t a ds = (r, d')"
  shows "dom (BankUser d') = dom (BankUser d)"
proof -
  from assms consider "BankUser d' = BankUser d"
    | i where "execute_transfer d now f (Some t) a (Some ds) = (Inr i, d')"
    by (auto simp: executeTransfer_def database_transaction_def
             split: if_splits prod.splits sum.splits)
  then show ?thesis
  proof cases
    case 1
    then show ?thesis by simp
  next
    case 2
    then show ?thesis by (rule execute_transfer_dom)
  qed
qed

lemma transferMoney_dom:
  "dom (BankUser (snd (transferMoney d now c t a ds))) = dom (BankUser d)"
proof (cases "transferMoney_checks d c t a")
  case (Inl e)
  then show ?thesis by (simp add: transferMoney_def)
next
  case (Inr v)
  then show ?thesis
    using executeTransfer_dom[OF surjective_pairing, of d now c t v "or_default ds ''Money transfer''"]
    by (simp add: transferMoney_def)
qed

subsection \<open>Orders of the history query\<close>

lemma ties_in_insertion_order_valid: "order_by_transaction_date_desc ties_in_insertion_order"
proof -
  have "sorted_wrt (\<lambda>a b. transaction_date b \<le> transaction_date a)
          (sort_key (\<lambda>t. - int (transaction_date t)) rows)" for rows
    using sorted_sort_key[of "\<lambda>t. - int (transaction_date t)" rows]
    by (simp add: sorted_map)
  then show ?thesis
    unfolding order_by_transaction_date_desc_def ties_in_insertion_order_def by auto
qed

lemma ties_latest_insertion_first_valid:
  "order_by_transaction_date_desc ties_latest_insertion_first"
proof -
  have "sorted_wrt (\<lambda>a b. transaction_date b \<le> transaction_date a)
          (rev (sort_key transaction_date rows))" for rows
    using sorted_sort_key[of transaction_date rows]
    by (simp add: sorted_map sorted_wrt_rev)
  then show ?thesis
    unfolding order_by_transaction_date_desc_def ties_latest_insertion_first_def by auto
qed

lemma ordered_dates_agree:
  assumes "order_by_transaction_date_desc ord1" and "order_by_transaction_date_desc ord2"
  shows "map transaction_date (ord2 rows) = map transaction_date (ord1 rows)"
proof -
  have s: "sorted (rev (map transaction_date (ord rows)))
           \<and> mset (rev (map transaction_date (ord rows))) = mset (map transaction_date rows)"
    if "order_by_transaction_date_desc ord" for ord
  proof -
    from that have m: "mset (ord rows) = mset rows"
      and w: "sorted_wrt (\<lambda>a b. transaction_date b \<le> transaction_date a) (ord rows)"
      by (simp_all add: order_by_transaction_date_desc_def)
    from w have "sorted (rev (map transaction_date (ord rows)))"
      by (simp add: sorted_wrt_rev sorted_wrt_map)
    moreover from m have "mset (map transaction_date (ord rows)) = mset (map transaction_date rows)"
      by (metis mset_map)
    ultimately show ?thesis by simp
  qed
  have "sort (map transaction_date rows) = rev (map transaction_date (ord1 rows))"
    using s[OF assms(1)] by (intro properties_for_sort) simp_all
  moreover have "sort (map transaction_date rows) = rev (map transaction_date (ord2 rows))"
    using s[OF assms(2)] by (intro properties_for_sort) simp_all
  ultimately show ?thesis by simp
qed

lemma ordered_rows_agree:
  assumes "order_by_transaction_date_desc ord1" and "order_by_transaction_date_desc ord2"
    and "distinct (map transaction_date rows)"
  shows "ord2 rows = ord1 rows"
proof -
  have "set (ord1 rows) = set rows" "set (ord2 rows) = set rows"
    using assms(1,2) by (auto simp: order_by_transaction_date_desc_def dest: mset_eq_setD)
  moreover have "inj_on transaction_date (set rows)"
    using assms(3) by (simp add: distinct_map)
  ultimately have "inj_on transaction_date (set (ord2 rows) \<union> set (ord1 rows))" by simp
  from inj_on_map_eq_map[OF this] ordered_dates_agree[OF assms(1,2)] show ?thesis by simp
qed

lemma row_join_names [simp]: "row (join_names d t) = t"
  by (simp add: join_names_def)

lemma getTransactionHistory_cases:
  "(\<exists>e. \<forall>ord. getTransactionHistory d ord c opts = Inl e)
   \<or> (\<exists>l f. \<forall>ord. getTransactionHistory d ord c opts =
          Inr \<lparr>transactions = getUserTransactions d ord c opts l f, page_limit = l,
               page_offset = f, total = getUserTransactionCount d c opts,
               has_more = (f + l < int (getUserTransactionCount d c opts))\<rparr>)"
  by (cases "getTransactionHistory_checks c opts")
     (auto simp: getTransactionHistory_def Let_def)

section \<open>Claims\<close>

text \<open>
  Claim C1. Whatever sequence of requests (deposits, withdrawals, transfers, reads) is
  served from a state in which no balance is negative, no balance is negative after any
  prefix of the sequence, that is, after each operation.
\<close>

theorem balance_never_negative:
  "balances_non_negative d \<Longrightarrow> balances_non_negative (run d (take n rs))"
  unfolding balances_non_negative_def by (rule run_every[OF storable_non_negative])

theorem balance_never_negative_witness:
  "balances_non_negative example_db
   \<and> balances_non_negative (run example_db (take 3 example_requests))
   \<and> map_option balance (BankUser (run example_db (take 3 example_requests)) 1) = Some 4750
   \<and> map_option balance (BankUser (run example_db (take 3 example_requests)) 2) = Some 3500"
proof -
  have h: "balances_non_negative example_db"
    by (auto simp: balances_non_negative_def every_balance_def example_db_def split: if_splits)
  have moved:
    "map_option balance (BankUser (run example_db (take 3 example_requests)) 1) = Some 4750"
    "map_option balance (BankUser (run example_db (take 3 example_requests)) 2) = Some 3500"
    by code_simp+
  from h moved balance_never_negative[OF h, of 3 example_requests] show ?thesis by simp
qed

text \<open>
  Claim C2. The sum of all balances is to stay as it is under committed transfers. It
  does not: \<^verbatim>\<open>transferMoney\<close> refuses an amount of more than two decimal places by the text
  after the point of \<^verbatim>\<open>amount.toString()\<close>, so the string '1005e-3', which has no point and
  the value 1.005, passes. The transfer commits; the column \<^verbatim>\<open>balance DECIMAL(15, 2)\<close>
  rounds the debit of 5000 - 1.005 to 4999.00 and the credit of 3000 + 1.005 to 3001.01,
  and the sum goes from 8000 to 8000.01.
\<close>

theorem exponent_amount_breaks_conservation:
  "transferMoney_checks example_db 1 2 (Truthy ''1005e-3'' (Finite (1005 / 1000)))
     = Inr (1005 / 1000)
   \<and> \<not> isl (fst (transferMoney example_db 1 1 2 (Truthy ''1005e-3'' (Finite (1005 / 1000))) None))
   \<and> map_option balance
        (BankUser (snd (transferMoney example_db 1 1 2
                          (Truthy ''1005e-3'' (Finite (1005 / 1000))) None)) 1) = Some 4999
   \<and> map_option balance
        (BankUser (snd (transferMoney example_db 1 1 2
                          (Truthy ''1005e-3'' (Finite (1005 / 1000))) None)) 2)
       = Some (300101 / 100)
   \<and> sum_balances example_db = 8000
   \<and> sum_balances (snd (transferMoney example_db 1 1 2
                           (Truthy ''1005e-3'' (Finite (1005 / 1000))) None))
       = 8000 + 1 / 100"
proof -
  let ?d' = "snd (transferMoney example_db 1 1 2 (Truthy ''1005e-3'' (Finite (1005 / 1000))) None)"
  have c: "transferMoney_checks example_db 1 2 (Truthy ''1005e-3'' (Finite (1005 / 1000)))
             = Inr (1005 / 1000)"
    by code_simp
  have ok: "\<not> isl (fst (transferMoney example_db 1 1 2
                           (Truthy ''1005e-3'' (Finite (1005 / 1000))) None))"
    by code_simp
  have b1: "map_option balance (BankUser ?d' 1) = Some 4999"
    and b2: "map_option balance (BankUser ?d' 2) = Some (300101 / 100)"
    by code_simp+
  have dom0: "dom (BankUser example_db) = {1, 2}"
    by (auto simp: example_db_def split: if_splits)
  have s0: "sum_balances example_db = 8000"
    by (simp add: sum_balances_def total_balance_def dom0) (simp add: example_db_def)
  have "dom (BankUser ?d') = {1, 2}"
    using transferMoney_dom[of example_db 1 1 2 _ None] dom0 by simp
  moreover from b1 b2 have "balance (the (BankUser ?d' 1)) = 4999"
    "balance (the (BankUser ?d' 2)) = 300101 / 100"
    by (auto simp: map_option_case split: option.splits)
  ultimately have s1: "sum_balances ?d' = 8000 + 1 / 100"
    by (simp add: sum_balances_def total_balance_def)
  from c ok b1 b2 s0 s1 show ?thesis by simp
qed



text \<open>
  Claim C4, amended. For every account whose balance (non-negative, as
  \<^verbatim>\<open>chk_balance_non_negative\<close> keeps it) is below the requested amount, when the amount is
  within the withdrawal cap of 25,000, \<^verbatim>\<open>withdrawMoney\<close> fails with 'Insufficient balance'
  and leaves the database as it was: the balance is unchanged and no row is written.
  Above the cap, the cap is reported first.
\<close>

theorem withdraw_insufficient_funds:
  assumes "BankUser d A = Some u" and "0 \<le> balance u"
    and "balance u < v" and "v \<le> 25000"
  shows "withdrawMoney d now A (Truthy txt (Finite v)) descr = (Inl InsufficientBalance, d)"
  using assms
  by (simp add: withdrawMoney_def bankUserModel_findById_def bankUserModel_getBalance_def)

theorem withdraw_insufficient_funds_witness:
  "BankUser small_db 1 = Some \<lparr>name = ''A'', balance = 100\<rparr>
   \<and> withdrawMoney small_db 0 1 (Truthy ''200'' (Finite 200)) (Some ''y'')
       = (Inl InsufficientBalance, small_db)"
proof -
  have u: "BankUser small_db 1 = Some \<lparr>name = ''A'', balance = 100\<rparr>"
    by (simp add: small_db_def)
  from withdraw_insufficient_funds[OF u, of 200 0 "''200''" "Some ''y''"] u
  show ?thesis by simp
qed

text \<open>
  The claim as stated, for every amount above the balance, fails at balance 100 and
  amount 30000: the error is the one of the cap.
\<close>

theorem withdraw_over_cap_counterexample:
  "map_option balance (BankUser small_db 1) = Some 100
   \<and> fst (withdrawMoney small_db 0 1 (Truthy ''30000'' (Finite 30000)) (Some ''y''))
       = Inl MaximumWithdrawalAmount
   \<and> fst (withdrawMoney small_db 0 1 (Truthy ''30000'' (Finite 30000)) (Some ''y''))
       \<noteq> Inl InsufficientBalance"
  by (simp add: small_db_def withdrawMoney_def)




text \<open>
  Claim C6, amended. A deposit that succeeds appends one row of type deposit whose
  \<^verbatim>\<open>from_customer_id\<close> is the depositing account and whose \<^verbatim>\<open>to_customer_id\<close> is null; a
  withdrawal that succeeds appends one row of type withdrawal whose \<^verbatim>\<open>from_customer_id\<close>
  is the withdrawing account and whose \<^verbatim>\<open>to_customer_id\<close> is null; a transfer that succeeds
  appends one row of type transfer with the sender in \<^verbatim>\<open>from_customer_id\<close> and the recipient
  in \<^verbatim>\<open>to_customer_id\<close>.
\<close>

theorem entry_parties:
  "(fst (depositMoney d now c a ds) = Inr r \<longrightarrow>
      (\<exists>e. Transactions (snd (depositMoney d now c a ds)) = Transactions d @ [e]
           \<and> transaction_type e = ''deposit''
           \<and> from_customer_id e = Some c \<and> to_customer_id e = None))
   \<and> (fst (withdrawMoney d now c a ds) = Inr r \<longrightarrow>
      (\<exists>e. Transactions (snd (withdrawMoney d now c a ds)) = Transactions d @ [e]
           \<and> transaction_type e = ''withdrawal''
           \<and> from_customer_id e = Some c \<and> to_customer_id e = None))
   \<and> (fst (transferMoney d now c t a ds) = Inr r \<longrightarrow>
      (\<exists>e. Transactions (snd (transferMoney d now c t a ds)) = Transactions d @ [e]
           \<and> transaction_type e = ''transfer''
           \<and> from_customer_id e = Some c \<and> to_customer_id e = Some t))"
proof (intro conjI impI)
  assume "fst (depositMoney d now c a ds) = Inr r"
  then obtain w where
    "fst (reply_with_balance (executeDeposit d now c w (or_default ds ''Deposit'')) c) = Inr r"
    and s: "snd (depositMoney d now c a ds) = snd (executeDeposit d now c w (or_default ds ''Deposit''))"
    by (auto simp: depositMoney_def split: js_value.splits js_float.splits if_splits)
  from fst_reply_with_balance_Inr[OF this(1)] obtain v where
    "fst (executeDeposit d now c w (or_default ds ''Deposit'')) = Inr v" ..
  from executeDeposit_appends[OF this] show
    "\<exists>e. Transactions (snd (depositMoney d now c a ds)) = Transactions d @ [e]
           \<and> transaction_type e = ''deposit''
           \<and> from_customer_id e = Some c \<and> to_customer_id e = None"
    unfolding s .
next
  assume "fst (withdrawMoney d now c a ds) = Inr r"
  then obtain w where
    "fst (reply_with_balance (executeWithdrawal d now c w (or_default ds ''Withdrawal'')) c) = Inr r"
    and s: "snd (withdrawMoney d now c a ds) = snd (executeWithdrawal d now c w (or_default ds ''Withdrawal''))"
    by (auto simp: withdrawMoney_def split: js_value.splits js_float.splits if_splits sum.splits)
  from fst_reply_with_balance_Inr[OF this(1)] obtain v where
    "fst (executeWithdrawal d now c w (or_default ds ''Withdrawal'')) = Inr v" ..
  from executeWithdrawal_appends[OF this] show
    "\<exists>e. Transactions (snd (withdrawMoney d now c a ds)) = Transactions d @ [e]
           \<and> transaction_type e = ''withdrawal''
           \<and> from_customer_id e = Some c \<and> to_customer_id e = None"
    unfolding s .
next
  assume "fst (transferMoney d now c t a ds) = Inr r"
  then obtain w where
    "fst (reply_with_balance (executeTransfer d now c t w (or_default ds ''Money transfer'')) c) = Inr r"
    and s: "snd (transferMoney d now c t a ds) = snd (executeTransfer d now c t w (or_default ds ''Money transfer''))"
    by (auto simp: transferMoney_def split: sum.splits)
  from fst_reply_with_balance_Inr[OF this(1)] obtain v where
    "fst (executeTransfer d now c t w (or_default ds ''Money transfer'')) = Inr v" ..
  from executeTransfer_appends[OF this] show
    "\<exists>e. Transactions (snd (transferMoney d now c t a ds)) = Transactions d @ [e]
           \<and> transaction_type e = ''transfer''
           \<and> from_customer_id e = Some c \<and> to_customer_id e = Some t"
    unfolding s .
qed

theorem entry_parties_witness:
  "(\<exists>r. fst (depositMoney example_db 3 1 (Truthy ''50'' (Finite 50)) None) = Inr r)
   \<and> (\<exists>e. Transactions (snd (depositMoney example_db 3 1 (Truthy ''50'' (Finite 50)) None)) = Transactions example_db @ [e]
           \<and> transaction_type e = ''deposit''
           \<and> from_customer_id e = Some 1 \<and> to_customer_id e = None)
   \<and> (\<exists>r. fst (withdrawMoney example_db 4 2 (Truthy ''50'' (Finite 50)) None) = Inr r)
   \<and> (\<exists>e. Transactions (snd (withdrawMoney example_db 4 2 (Truthy ''50'' (Finite 50)) None)) = Transactions example_db @ [e]
           \<and> transaction_type e = ''withdrawal''
           \<and> from_customer_id e = Some 2 \<and> to_customer_id e = None)
   \<and> (\<exists>r. fst (transferMoney example_db 5 1 2 (Truthy ''50'' (Finite 50)) None) = Inr r)
   \<and> (\<exists>e. Transactions (snd (transferMoney example_db 5 1 2 (Truthy ''50'' (Finite 50)) None)) = Transactions example_db @ [e]
           \<and> transaction_type e = ''transfer''
           \<and> from_customer_id e = Some 1 \<and> to_customer_id e = Some 2)"
proof -
  have "isl (fst (depositMoney example_db 3 1 (Truthy ''50'' (Finite 50)) None)) = False" by code_simp
  then obtain r1 where r1: "fst (depositMoney example_db 3 1 (Truthy ''50'' (Finite 50)) None) = Inr r1"
    by (cases "fst (depositMoney example_db 3 1 (Truthy ''50'' (Finite 50)) None)") auto
  have "isl (fst (withdrawMoney example_db 4 2 (Truthy ''50'' (Finite 50)) None)) = False" by code_simp
  then obtain r2 where r2: "fst (withdrawMoney example_db 4 2 (Truthy ''50'' (Finite 50)) None) = Inr r2"
    by (cases "fst (withdrawMoney example_db 4 2 (Truthy ''50'' (Finite 50)) None)") auto
  have "isl (fst (transferMoney example_db 5 1 2 (Truthy ''50'' (Finite 50)) None)) = False" by code_simp
  then obtain r3 where r3: "fst (transferMoney example_db 5 1 2 (Truthy ''50'' (Finite 50)) None) = Inr r3"
    by (cases "fst (transferMoney example_db 5 1 2 (Truthy ''50'' (Finite 50)) None)") auto
  from entry_parties[of example_db 3 1 "Truthy ''50'' (Finite 50)" None r1]
    entry_parties[of example_db 4 2 "Truthy ''50'' (Finite 50)" None r2]
    entry_parties[of example_db 5 1 "Truthy ''50'' (Finite 50)" None r3 2] r1 r2 r3
  show ?thesis by blast
qed

text \<open>
  The claim as stated has the deposited account in \<^verbatim>\<open>to_customer_id\<close> and null in
  \<^verbatim>\<open>from_customer_id\<close>; the row of a deposit by account 1 has them the other way round.
\<close>

theorem deposit_entry_parties_counterexample:
  "map transaction_type (Transactions (snd (depositMoney example_db 3 1 (Truthy ''50'' (Finite 50)) None))) = [''deposit'']
   \<and> map from_customer_id (Transactions (snd (depositMoney example_db 3 1 (Truthy ''50'' (Finite 50)) None))) = [Some 1]
   \<and> map to_customer_id (Transactions (snd (depositMoney example_db 3 1 (Truthy ''50'' (Finite 50)) None))) = [None]
   \<and> map from_customer_id (Transactions (snd (depositMoney example_db 3 1 (Truthy ''50'' (Finite 50)) None))) \<noteq> [None]
   \<and> map to_customer_id (Transactions (snd (depositMoney example_db 3 1 (Truthy ''50'' (Finite 50)) None))) \<noteq> [Some 1]"
  by code_simp




text \<open>
  Claim C8, amended. For a transfer between two distinct existing accounts,
  \<^verbatim>\<open>execute_transfer\<close> locks the sender's row first and the recipient's row second; the
  locks are taken in ascending order of account identifier exactly when the sender's
  identifier is the smaller one.
\<close>

theorem lock_order_is_call_order:
  assumes "BankUser d f \<noteq> None" and "BankUser d t \<noteq> None" and "f \<noteq> t"
  shows "execute_transfer_locks d f (Some t) = [f, t]
         \<and> (sorted (execute_transfer_locks d f (Some t)) \<longleftrightarrow> f < t)"
  using assms by (auto simp: execute_transfer_locks_def)

theorem lock_order_is_call_order_witness:
  "BankUser example_db 2 \<noteq> None \<and> BankUser example_db 1 \<noteq> None
   \<and> execute_transfer_locks example_db 2 (Some 1) = [2, 1]
   \<and> execute_transfer_locks example_db 1 (Some 2) = [1, 2]"
  using lock_order_is_call_order[of example_db 2 1] lock_order_is_call_order[of example_db 1 2]
  by (simp add: example_db_def)

text \<open>
  The claim as stated has the lower identifier locked first in every transfer; in a
  transfer from account 2 to account 1 the row of account 2 is locked first.
\<close>

theorem lock_order_counterexample:
  "execute_transfer_locks example_db 2 (Some 1) = [2, 1] \<and> \<not> sorted (execute_transfer_locks example_db 2 (Some 1))"
  by (simp add: execute_transfer_locks_def example_db_def)

text \<open>
  Claim C9, amended. With no mutation in between, a second \<^verbatim>\<open>getBalance\<close> call returns the
  result of the first with \<^verbatim>\<open>last_updated\<close> set to the time of the second call: customer,
  name and balance are the same. A second \<^verbatim>\<open>getTransactionHistory\<close> call with the same
  arguments fails as the first does or returns the same limit, offset, total and
  \<^verbatim>\<open>has_more\<close> and rows with the same sequence of dates, whatever order the database gives
  to rows of equal date in each call; when no two rows that match the filters share a
  date, it returns the result of the first.
\<close>

theorem reads_repeat:
  assumes "order_by_transaction_date_desc ord1" and "order_by_transaction_date_desc ord2"
  shows "getBalance d tb c = map_sum id (\<lambda>x. x\<lparr>last_updated := tb\<rparr>) (getBalance d ta c)
    \<and> map_sum id
         (\<lambda>h. (map (\<lambda>r. transaction_date (row r)) (transactions h),
               page_limit h, page_offset h, total h, has_more h))
         (getTransactionHistory d ord2 c opts)
       = map_sum id
           (\<lambda>h. (map (\<lambda>r. transaction_date (row r)) (transactions h),
                 page_limit h, page_offset h, total h, has_more h))
           (getTransactionHistory d ord1 c opts)
    \<and> (distinct (map transaction_date (filter (history_where c opts) (Transactions d)))
        \<longrightarrow> getTransactionHistory d ord2 c opts = getTransactionHistory d ord1 c opts)"
proof (intro conjI impI)
  show "getBalance d tb c = map_sum id (\<lambda>x. x\<lparr>last_updated := tb\<rparr>) (getBalance d ta c)"
    by (simp add: getBalance_def split: option.splits sum.splits)
next
  let ?rows = "filter (history_where c opts) (Transactions d)"
  have dates: "map (\<lambda>r. transaction_date (row r)) (getUserTransactions d ord2 c opts l f)
          = map (\<lambda>r. transaction_date (row r)) (getUserTransactions d ord1 c opts l f)" for l f
  proof -
    have "map (\<lambda>r. transaction_date (row r)) (getUserTransactions d ord c opts l f)
            = take (nat l) (drop (nat f) (map transaction_date (ord ?rows)))" for ord
      by (simp add: getUserTransactions_def o_def take_map drop_map)
    then show ?thesis using ordered_dates_agree[OF assms, of ?rows] by simp
  qed
  from getTransactionHistory_cases[of d c opts] show "map_sum id
         (\<lambda>h. (map (\<lambda>r. transaction_date (row r)) (transactions h),
               page_limit h, page_offset h, total h, has_more h))
         (getTransactionHistory d ord2 c opts)
       = map_sum id
           (\<lambda>h. (map (\<lambda>r. transaction_date (row r)) (transactions h),
                 page_limit h, page_offset h, total h, has_more h))
           (getTransactionHistory d ord1 c opts)"
    by (auto simp: dates)
next
  assume "distinct (map transaction_date (filter (history_where c opts) (Transactions d)))"
  from ordered_rows_agree[OF assms this]
  have "getUserTransactions d ord2 c opts l f = getUserTransactions d ord1 c opts l f" for l f
    by (simp add: getUserTransactions_def)
  with getTransactionHistory_cases[of d c opts]
  show "getTransactionHistory d ord2 c opts = getTransactionHistory d ord1 c opts"
    by auto
qed

theorem reads_repeat_witness:
  "order_by_transaction_date_desc ties_in_insertion_order
   \<and> order_by_transaction_date_desc ties_latest_insertion_first
   \<and> distinct (map transaction_date (filter (history_where 2 no_options) (Transactions history_db)))
   \<and> getBalance history_db 5 1
       = Inr \<lparr>name = ''A'', balance = 4500, customer_id = 1, last_updated = 5\<rparr>
   \<and> getBalance history_db 6 1
       = Inr \<lparr>name = ''A'', balance = 4500, customer_id = 1, last_updated = 6\<rparr>
   \<and> getTransactionHistory history_db ties_latest_insertion_first 2 no_options
       = getTransactionHistory history_db ties_in_insertion_order 2 no_options
   \<and> map_sum id total (getTransactionHistory history_db ties_in_insertion_order 2 no_options)
       = Inr 2
   \<and> map_sum id (\<lambda>h. map (\<lambda>r. transaction_id (row r)) (transactions h))
         (getTransactionHistory same_date_db ties_in_insertion_order 1 no_options)
       = Inr [1, 2, 3]
   \<and> map_sum id (\<lambda>h. map (\<lambda>r. transaction_id (row r)) (transactions h))
         (getTransactionHistory same_date_db ties_latest_insertion_first 1 no_options)
       = Inr [3, 2, 1]
   \<and> map_sum id
         (\<lambda>h. (map (\<lambda>r. transaction_date (row r)) (transactions h),
               page_limit h, page_offset h, total h, has_more h))
         (getTransactionHistory same_date_db ties_latest_insertion_first 1 no_options)
       = map_sum id
           (\<lambda>h. (map (\<lambda>r. transaction_date (row r)) (transactions h),
                 page_limit h, page_offset h, total h, has_more h))
           (getTransactionHistory same_date_db ties_in_insertion_order 1 no_options)"
proof -
  note v = ties_in_insertion_order_valid ties_latest_insertion_first_valid
  have dd: "distinct (map transaction_date
                (filter (history_where 2 no_options) (Transactions history_db)))"
    by code_simp
  have g: "getBalance history_db 5 1
             = Inr \<lparr>name = ''A'', balance = 4500, customer_id = 1, last_updated = 5\<rparr>"
    by code_simp
  have h: "map_sum id total
             (getTransactionHistory history_db ties_in_insertion_order 2 no_options) = Inr 2"
    by code_simp
  have ids:
    "map_sum id (\<lambda>h. map (\<lambda>r. transaction_id (row r)) (transactions h))
         (getTransactionHistory same_date_db ties_in_insertion_order 1 no_options)
       = Inr [1, 2, 3]"
    "map_sum id (\<lambda>h. map (\<lambda>r. transaction_id (row r)) (transactions h))
         (getTransactionHistory same_date_db ties_latest_insertion_first 1 no_options)
       = Inr [3, 2, 1]"
    by code_simp+
  from reads_repeat[OF v, of history_db 6 1 5 no_options]
    reads_repeat[OF v, of history_db 6 2 5 no_options]
    reads_repeat[OF v, of same_date_db 6 1 5 no_options] v dd g h ids
  show ?thesis by simp
qed

text \<open>
  The claim as stated has two consecutive \<^verbatim>\<open>getBalance\<close> results identical; they differ
  in \<^verbatim>\<open>last_updated\<close> when the clock has advanced between the calls.
\<close>

theorem getBalance_repeat_counterexample:
  "getBalance example_db 1 1 \<noteq> getBalance example_db 0 1"
  by (simp add: getBalance_def example_db_def bankUserModel_findById_def bankUserModel_getBalance_def)

text \<open>
  Claim C10. For a transaction that exists, \<^verbatim>\<open>getTransactionDetails\<close> returns its details
  if the caller is its \<^verbatim>\<open>from_customer_id\<close> or its \<^verbatim>\<open>to_customer_id\<close>, and fails with
  'Access denied' for every other caller. Callers are authenticated customers and
  transaction identifiers come from a \<^verbatim>\<open>SERIAL\<close> sequence, so neither is 0, the one integer
  that is falsy.
\<close>

theorem transaction_details_access:
  assumes "transactionModel_findById d transactionId = Some t"
    and "customerId \<noteq> 0" and "transactionId \<noteq> 0"
  shows "getTransactionDetails d customerId transactionId =
           (if from_customer_id (row t) = Some customerId \<or> to_customer_id (row t) = Some customerId
            then Inr t else Inl AccessDenied)"
  using assms by (simp add: getTransactionDetails_def)

theorem transaction_details_access_witness:
  "transactionModel_findById history_db 1 = Some (join_names history_db (hd (Transactions history_db)))
   \<and> getTransactionDetails history_db 1 1 = Inr (join_names history_db (hd (Transactions history_db)))
   \<and> getTransactionDetails history_db 2 1 = Inr (join_names history_db (hd (Transactions history_db)))
   \<and> getTransactionDetails history_db 3 1 = Inl AccessDenied"
proof -
  have f: "transactionModel_findById history_db 1 = Some (join_names history_db (hd (Transactions history_db)))"
    by (simp add: transactionModel_findById_def history_db_def)
  have r: "from_customer_id (row (join_names history_db (hd (Transactions history_db)))) = Some 1"
    "to_customer_id (row (join_names history_db (hd (Transactions history_db)))) = Some 2"
    by (simp_all add: join_names_def history_db_def)
  from transaction_details_access[OF f, of 1] transaction_details_access[OF f, of 2]
    transaction_details_access[OF f, of 3] f r
  show ?thesis by simp
qed

end
